theory Spec2Isabelle
  imports Main
begin

section \<open>Go values: call results, errors, dynamic types\<close>

text \<open>
  A Go call either returns or panics. Every function below that can run into a nil
  dereference, a nil function value or a panicking library call returns a \<open>res\<close>.
\<close>

datatype 'a res = Panic | Ret 'a

text \<open>The kinds of package \<open>reflect\<close>.\<close>

datatype kind =
    KInvalid | KBool | KInt | KInt8 | KInt16 | KInt32 | KInt64
  | KUint | KUint8 | KUint16 | KUint32 | KUint64 | KUintptr
  | KFloat32 | KFloat64 | KComplex64 | KComplex128
  | KArray | KChan | KFunc | KInterface | KMap | KPtr | KSlice
  | KString | KStruct | KUnsafePointer

text \<open>
  The dynamic type of a value, as far as a type switch and \<open>reflect\<close> can tell types
  apart: a predeclared type (\<open>string\<close>, \<open>int\<close>, ...), an unnamed pointer type \<open>*T\<close>, a
  composite type literal (struct, slice, map, ...) known by its kind, or a defined type
  \<open>type N T\<close> with its underlying type.
\<close>

datatype gotype =
    Predeclared kind
  | PtrTo gotype
  | Composite kind
  | Defined gotype

fun Kind :: "gotype \<Rightarrow> kind" where
  "Kind (Predeclared k) = k"
| "Kind (PtrTo t) = KPtr"
| "Kind (Composite k) = k"
| "Kind (Defined t) = Kind t"

text \<open>The kind of the element type of a pointer type (\<open>v.Elem().Kind()\<close>).\<close>

fun Elem_Kind :: "gotype \<Rightarrow> kind" where
  "Elem_Kind (PtrTo t) = Kind t"
| "Elem_Kind (Defined t) = Elem_Kind t"
| "Elem_Kind (Predeclared k) = KInvalid"
| "Elem_Kind (Composite k) = KInvalid"

text \<open>
  A value of type \<open>any\<close>: the nil interface, or a value with its dynamic type and whether
  it is the nil of that type (read only for the kinds that have a nil).
\<close>

datatype any = NilAny | Dyn gotype bool

fun reflect_Kind :: "any \<Rightarrow> kind" where
  "reflect_Kind NilAny = KInvalid"
| "reflect_Kind (Dyn t n) = Kind t"

fun reflect_IsNil :: "any \<Rightarrow> bool" where
  "reflect_IsNil NilAny = True"
| "reflect_IsNil (Dyn t n) = n"

fun reflect_Elem_Kind :: "any \<Rightarrow> kind" where
  "reflect_Elem_Kind NilAny = KInvalid"
| "reflect_Elem_Kind (Dyn t n) = Elem_Kind t"

text \<open>
  Errors are kept as the call that made them: \<open>errors.New(text)\<close> or
  \<open>fmt.Errorf(format, args...)\<close>. The text \<open>fmt\<close> produces from a format is not computed;
  two errors are the same description when they were made from the same arguments.
  An argument of \<open>fmt.Errorf\<close> is a \<open>reflect.Kind\<close> or a value supplied by the caller.
\<close>

datatype 'a fmt_arg = KindArg kind | Arg 'a

datatype 'a error = errors_New string | fmt_Errorf string "'a fmt_arg list"

definition ErrCondition :: "'a error" where
  "ErrCondition = errors_New ''condition validation failed''"

definition ErrDependency :: "'a error" where
  "ErrDependency = errors_New ''dependency validation failed''"

definition ErrMutualExclude :: "'a error" where
  "ErrMutualExclude = errors_New ''mutual exclude validation failed''"

definition ErrNil :: "'a error" where
  "ErrNil = errors_New ''must be nil''"

definition ErrNotNil :: "'a error" where
  "ErrNotNil = errors_New ''must not be nil''"

section \<open>The Rule interface\<close>

text \<open>
  \<open>Rule[T]\<close> has one method, \<open>Validate(value T) error\<close>. An implementation is any Go
  code: it may read and write the program state \<open>'w\<close>, and it may panic. A variable of
  the interface type may also be nil, and calling a method on it panics.
\<close>

type_synonym ('a, 'v, 'w) Rule = "'v \<Rightarrow> 'w \<Rightarrow> 'a error option res \<times> 'w"

definition Rule_Validate ::
  "('a, 'v, 'w) Rule option \<Rightarrow> 'v \<Rightarrow> 'w \<Rightarrow> 'a error option res \<times> 'w" where
  "Rule_Validate rule value w = (case rule of None \<Rightarrow> (Panic, w) | Some f \<Rightarrow> f value w)"

section \<open>Compound rules\<close>

subsection \<open>ConditionRule\<close>

record ('a, 'v, 'w) ConditionRule =
  cond_e :: "'a error option"
  cond_operator :: string
  cond_rules :: "('a, 'v, 'w) Rule option list"

definition And :: "('a, 'v, 'w) Rule option list \<Rightarrow> ('a, 'v, 'w) ConditionRule" where
  "And rules = \<lparr>cond_e = Some ErrCondition, cond_operator = ''AND'', cond_rules = rules\<rparr>"

definition Or :: "('a, 'v, 'w) Rule option list \<Rightarrow> ('a, 'v, 'w) ConditionRule" where
  "Or rules = \<lparr>cond_e = Some ErrCondition, cond_operator = ''OR'', cond_rules = rules\<rparr>"

text \<open>The loop of the \<open>"AND"\<close> case: the first child error ends it with \<open>r.e\<close>.\<close>

fun Validate_AND ::
  "'a error option \<Rightarrow> ('a, 'v, 'w) Rule option list \<Rightarrow> 'v \<Rightarrow> 'w \<Rightarrow> 'a error option res \<times> 'w"
where
  "Validate_AND e [] value w = (Ret None, w)"
| "Validate_AND e (rule # rules) value w =
     (case Rule_Validate rule value w of
        (Panic, w') \<Rightarrow> (Panic, w')
      | (Ret err, w') \<Rightarrow>
          if err \<noteq> None then (Ret e, w') else Validate_AND e rules value w')"

text \<open>The loop of the \<open>"OR"\<close> case: the first child without error ends it with nil.\<close>

fun Validate_OR ::
  "'a error option \<Rightarrow> ('a, 'v, 'w) Rule option list \<Rightarrow> 'v \<Rightarrow> 'w \<Rightarrow> 'a error option res \<times> 'w"
where
  "Validate_OR e [] value w = (Ret e, w)"
| "Validate_OR e (rule # rules) value w =
     (case Rule_Validate rule value w of
        (Panic, w') \<Rightarrow> (Panic, w')
      | (Ret err, w') \<Rightarrow>
          if err = None then (Ret None, w') else Validate_OR e rules value w')"

definition ConditionRule_Validate ::
  "('a, 'v, 'w) ConditionRule \<Rightarrow> 'v \<Rightarrow> 'w \<Rightarrow> 'a error option res \<times> 'w" where
  "ConditionRule_Validate r value w =
     (if cond_operator r = ''AND'' then Validate_AND (cond_e r) (cond_rules r) value w
      else if cond_operator r = ''OR'' then Validate_OR (cond_e r) (cond_rules r) value w
      else (Ret (cond_e r), w))"

text \<open>
  \<open>Errf\<close> writes the receiver's \<open>e\<close> and returns the receiver: the function gives the
  receiver as it is after the call.
\<close>

definition ConditionRule_Errf ::
  "('a, 'v, 'w) ConditionRule \<Rightarrow> string \<Rightarrow> 'a fmt_arg list \<Rightarrow> ('a, 'v, 'w) ConditionRule" where
  "ConditionRule_Errf r format args =
     (if format \<noteq> [] then r\<lparr>cond_e := Some (fmt_Errorf format args)\<rparr> else r)"

subsection \<open>DependencyRule\<close>

text \<open>
  The value getter is a Go function value: it may be nil, and calling it may change the
  state or panic.
\<close>

record ('a, 't, 'd, 'w) DependencyRule =
  dep_e :: "'a error option"
  dep_field :: string
  dep_dependency :: string
  dep_validator :: "('a, 'd, 'w) Rule option"
  dep_valueGetter :: "('t \<Rightarrow> 'w \<Rightarrow> 'd res \<times> 'w) option"

definition Dependency ::
  "string \<Rightarrow> string \<Rightarrow> ('a, 'd, 'w) Rule option \<Rightarrow> ('t \<Rightarrow> 'w \<Rightarrow> 'd res \<times> 'w) option
    \<Rightarrow> ('a, 't, 'd, 'w) DependencyRule" where
  "Dependency field dependency validator valueGetter =
     \<lparr>dep_e = Some ErrDependency, dep_field = field, dep_dependency = dependency,
      dep_validator = validator, dep_valueGetter = valueGetter\<rparr>"

definition DependencyRule_Validate ::
  "('a, 't, 'd, 'w) DependencyRule \<Rightarrow> 't \<Rightarrow> 'w \<Rightarrow> 'a error option res \<times> 'w" where
  "DependencyRule_Validate r value w =
     (if dep_validator r = None then (Ret None, w)
      else (case dep_valueGetter r of
              None \<Rightarrow> (Panic, w)
            | Some getter \<Rightarrow>
                (case getter value w of
                   (Panic, w') \<Rightarrow> (Panic, w')
                 | (Ret dependencyValue, w') \<Rightarrow>
                     Rule_Validate (dep_validator r) dependencyValue w')))"

definition DependencyRule_Errf ::
  "('a, 't, 'd, 'w) DependencyRule \<Rightarrow> string \<Rightarrow> 'a fmt_arg list
    \<Rightarrow> ('a, 't, 'd, 'w) DependencyRule" where
  "DependencyRule_Errf r format args =
     (if format \<noteq> [] then r\<lparr>dep_e := Some (fmt_Errorf format args)\<rparr> else r)"

subsection \<open>MutualExcludeRule\<close>

text \<open>The comparison is a predicate on two values; the function value may be nil.\<close>

record ('a, 't) MutualExcludeRule =
  mx_e :: "'a error option"
  mx_fields :: "string list"
  mx_values :: "'t list"
  mx_compare :: "('t \<Rightarrow> 't \<Rightarrow> bool) option"

definition MutualExclude ::
  "string list \<Rightarrow> 't list \<Rightarrow> ('t \<Rightarrow> 't \<Rightarrow> bool) option \<Rightarrow> ('a, 't) MutualExcludeRule" where
  "MutualExclude fields' values compare =
     \<lparr>mx_e = Some ErrMutualExclude, mx_fields = fields', mx_values = values,
      mx_compare = compare\<rparr>"

text \<open>The scan over \<open>r.values\<close>: the value of \<open>valid\<close> when the loop ends.\<close>

fun valid_scan :: "('t \<Rightarrow> 't \<Rightarrow> bool) \<Rightarrow> 't list \<Rightarrow> 't \<Rightarrow> bool" where
  "valid_scan compare [] value = False"
| "valid_scan compare (v # vs) value =
     (if compare v value then True else valid_scan compare vs value)"

definition MutualExcludeRule_Validate :: "('a, 't) MutualExcludeRule \<Rightarrow> 't \<Rightarrow> 'a error option" where
  "MutualExcludeRule_Validate r value =
     (case mx_compare r of
        None \<Rightarrow> None
      | Some compare \<Rightarrow> if \<not> valid_scan compare (mx_values r) value then mx_e r else None)"

definition MutualExcludeRule_Errf ::
  "('a, 't) MutualExcludeRule \<Rightarrow> string \<Rightarrow> 'a fmt_arg list \<Rightarrow> ('a, 't) MutualExcludeRule" where
  "MutualExcludeRule_Errf r format args =
     (if format \<noteq> [] then r\<lparr>mx_e := Some (fmt_Errorf format args)\<rparr> else r)"

section \<open>Nil rules\<close>

record 'a NilRule =
  nil_not :: bool
  nil_e :: "'a error option"

text \<open>
  The types named by the cases of the type switch in \<open>NilRule.Validate\<close>: the thirteen
  value types and the fourteen pointer types (\<open>float64\<close> has no case, \<open>*float64\<close> has).
\<close>

definition value_cases :: "gotype list" where
  "value_cases = map Predeclared
     [KString, KInt, KInt8, KInt16, KInt32, KInt64, KUint, KUint8, KUint16, KUint32,
      KUint64, KFloat32, KBool]"

definition pointer_cases :: "gotype list" where
  "pointer_cases = map (\<lambda>k. PtrTo (Predeclared k))
     [KString, KInt, KInt8, KInt16, KInt32, KInt64, KUint, KUint8, KUint16, KUint32,
      KUint64, KFloat32, KFloat64, KBool]"

text \<open>
  The type switch: \<open>Inr isNil\<close> when it falls through to the final test, \<open>Inl\<close> when the
  default case leaves the function: with the unsupported-type error, or with the panic of
  \<open>reflect.Value.IsNil\<close> on an array.
\<close>

definition isNil_switch :: "any \<Rightarrow> 'a error option res + bool" where
  "isNil_switch value =
     (case value of
        NilAny \<Rightarrow> Inr True
      | Dyn t n \<Rightarrow>
          if t \<in> set value_cases then Inr False
          else if t \<in> set pointer_cases then Inr n
          else if Kind t \<in> {KPtr, KInterface, KMap, KFunc, KArray, KChan, KSlice}
          then (if Kind t = KArray then Inl Panic else Inr n)
          else Inl (Ret (Some (fmt_Errorf ''unsupported type: %v'' [KindArg (Kind t)]))))"

definition NilRule_Validate :: "'a NilRule \<Rightarrow> any \<Rightarrow> 'a error option res" where
  "NilRule_Validate r value =
     (case isNil_switch value of
        Inl out \<Rightarrow> out
      | Inr isNil \<Rightarrow>
          if (nil_not r \<and> isNil) \<or> (\<not> nil_not r \<and> \<not> isNil) then Ret (nil_e r)
          else Ret None)"

definition NilRule_Errf :: "'a NilRule \<Rightarrow> string \<Rightarrow> 'a fmt_arg list \<Rightarrow> 'a NilRule" where
  "NilRule_Errf r format args =
     (if format \<noteq> [] then r\<lparr>nil_e := Some (fmt_Errorf format args)\<rparr> else r)"

text \<open>
  The package-level variable \<open>rule.NotNil\<close> points to one \<open>NilRule\<close> object for the whole
  process. The program state holds that object; whatever else a program keeps in its
  state is the extension of the record.
\<close>

record 'a globals =
  NotNil :: "'a NilRule"

definition NotNil_initial :: "'a NilRule" where
  "NotNil_initial = \<lparr>nil_not = True, nil_e = Some ErrNotNil\<rparr>"

text \<open>
  \<open>rule.NotNil\<close> as a value of the interface \<open>Rule[any]\<close>: a pointer to the shared object,
  whose \<open>Validate\<close> reads the object as it is when called.
\<close>

definition NotNil_rule :: "('a, any, ('a, 'm) globals_scheme) Rule" where
  "NotNil_rule value w = (NilRule_Validate (NotNil w) value, w)"

section \<open>Field bindings\<close>

text \<open>
  \<open>IFieldRule\<close> has one method, \<open>validate() error\<close>; an implementation is any Go code on the
  state, and the interface value may be nil.
\<close>

type_synonym ('a, 'w) IFieldRule = "'w \<Rightarrow> 'a error option res \<times> 'w"

definition IFieldRule_validate ::
  "('a, 'w) IFieldRule option \<Rightarrow> 'w \<Rightarrow> 'a error option res \<times> 'w" where
  "IFieldRule_validate field w = (case field of None \<Rightarrow> (Panic, w) | Some f \<Rightarrow> f w)"

text \<open>
  A \<open>*T\<close> that points into the caller's record is the function reading that place from
  the state, or \<open>None\<close> for the nil pointer.
\<close>

record ('a, 'v, 'w) FieldRule =
  fr_field :: "('w \<Rightarrow> 'v) option"
  fr_rules :: "('a, 'v, 'w) Rule option list"

definition Field ::
  "('w \<Rightarrow> 'v) option \<Rightarrow> ('a, 'v, 'w) Rule option list \<Rightarrow> ('a, 'v, 'w) FieldRule" where
  "Field field rules = \<lparr>fr_field = field, fr_rules = rules\<rparr>"

text \<open>The loop of \<open>FieldRule.validate\<close>; \<open>*f.field\<close> is evaluated in every round.\<close>

fun validate_loop ::
  "('w \<Rightarrow> 'v) option \<Rightarrow> ('a, 'v, 'w) Rule option list \<Rightarrow> 'w \<Rightarrow> 'a error option res \<times> 'w"
where
  "validate_loop field [] w = (Ret None, w)"
| "validate_loop field (rule # rules) w =
     (case field of
        None \<Rightarrow> (Panic, w)
      | Some deref \<Rightarrow>
          (case Rule_Validate rule (deref w) w of
             (Panic, w') \<Rightarrow> (Panic, w')
           | (Ret (Some err), w') \<Rightarrow> (Ret (Some err), w')
           | (Ret None, w') \<Rightarrow> validate_loop field rules w'))"

definition FieldRule_validate :: "('a, 'v, 'w) FieldRule \<Rightarrow> ('a, 'w) IFieldRule" where
  "FieldRule_validate f w = validate_loop (fr_field f) (fr_rules f) w"

section \<open>Orchestration\<close>

fun Validate ::
  "'v \<Rightarrow> ('a, 'v, 'w) Rule option list \<Rightarrow> 'w \<Rightarrow> 'a error option res \<times> 'w" where
  "Validate value [] w = (Ret None, w)"
| "Validate value (rule # rules) w =
     (case Rule_Validate rule value w of
        (Panic, w') \<Rightarrow> (Panic, w')
      | (Ret (Some err), w') \<Rightarrow> (Ret (Some err), w')
      | (Ret None, w') \<Rightarrow> Validate value rules w')"

text \<open>The loop of \<open>ValidateWithErrs\<close>, with the slice \<open>errs\<close> built so far.\<close>

fun ValidateWithErrs_loop ::
  "'a error list \<Rightarrow> 'v \<Rightarrow> ('a, 'v, 'w) Rule option list \<Rightarrow> 'w \<Rightarrow> 'a error list res \<times> 'w"
where
  "ValidateWithErrs_loop errs value [] w = (Ret errs, w)"
| "ValidateWithErrs_loop errs value (rule # rules) w =
     (case Rule_Validate rule value w of
        (Panic, w') \<Rightarrow> (Panic, w')
      | (Ret (Some err), w') \<Rightarrow> ValidateWithErrs_loop (errs @ [err]) value rules w'
      | (Ret None, w') \<Rightarrow> ValidateWithErrs_loop errs value rules w')"

definition ValidateWithErrs ::
  "'v \<Rightarrow> ('a, 'v, 'w) Rule option list \<Rightarrow> 'w \<Rightarrow> 'a error list res \<times> 'w" where
  "ValidateWithErrs value rules w = ValidateWithErrs_loop [] value rules w"

text \<open>The loop over the field bindings in \<open>ValidateStruct\<close>.\<close>

fun validate_fields ::
  "('a, 'w) IFieldRule option list \<Rightarrow> 'w \<Rightarrow> 'a error option res \<times> 'w" where
  "validate_fields [] w = (Ret None, w)"
| "validate_fields (field # rest) w =
     (case IFieldRule_validate field w of
        (Panic, w') \<Rightarrow> (Panic, w')
      | (Ret (Some err), w') \<Rightarrow> (Ret (Some err), w')
      | (Ret None, w') \<Rightarrow> validate_fields rest w')"

definition shape_error :: "'a error" where
  "shape_error = errors_New ''value must be a pointer''"

text \<open>
  \<open>ValidateStruct\<close>. The two operands of \<open>||\<close> are tested one after the other, as Go
  evaluates them. \<open>rule.NotNil.Errf(nilErr)\<close> is evaluated before \<open>Validate\<close> is called,
  and it writes the shared object.
\<close>

definition ValidateStruct ::
  "any \<Rightarrow> string \<Rightarrow> ('a, ('a, 'm) globals_scheme) IFieldRule option list
    \<Rightarrow> ('a, 'm) globals_scheme \<Rightarrow> 'a error option res \<times> ('a, 'm) globals_scheme" where
  "ValidateStruct value nilErr fields' w =
     (if reflect_Kind value \<noteq> KPtr then (Ret (Some shape_error), w)
      else if \<not> reflect_IsNil value \<and> reflect_Elem_Kind value \<noteq> KStruct
      then (Ret (Some shape_error), w)
      else (case Validate value [Some NotNil_rule]
                   (w\<lparr>NotNil := NilRule_Errf (NotNil w) nilErr []\<rparr>) of
              (Panic, w') \<Rightarrow> (Panic, w')
            | (Ret (Some err), w') \<Rightarrow> (Ret (Some err), w')
            | (Ret None, w') \<Rightarrow> validate_fields fields' w'))"

section \<open>Runs of rules\<close>

text \<open>
  \<open>passes read rules w\<close> is the state reached when the rules are invoked in order, each
  on the value \<open>read\<close> gives in the state it starts from, and every one of them returns
  nil; it is \<open>None\<close> as soon as one of them returns an error or panics.
  \<open>fails\<close> is the same for rules that all return an error.
\<close>

fun passes :: "('w \<Rightarrow> 'v) \<Rightarrow> ('a, 'v, 'w) Rule option list \<Rightarrow> 'w \<Rightarrow> 'w option" where
  "passes read [] w = Some w"
| "passes read (rule # rules) w =
     (case Rule_Validate rule (read w) w of
        (Ret None, w') \<Rightarrow> passes read rules w'
      | (Ret (Some err), w') \<Rightarrow> None
      | (Panic, w') \<Rightarrow> None)"

fun fails :: "('w \<Rightarrow> 'v) \<Rightarrow> ('a, 'v, 'w) Rule option list \<Rightarrow> 'w \<Rightarrow> 'w option" where
  "fails read [] w = Some w"
| "fails read (rule # rules) w =
     (case Rule_Validate rule (read w) w of
        (Ret (Some err), w') \<Rightarrow> fails read rules w'
      | (Ret None, w') \<Rightarrow> None
      | (Panic, w') \<Rightarrow> None)"

text \<open>
  \<open>outcomes value rules w\<close>: what each rule of the list returns, in order, when all of
  them are invoked one after the other, with the final state; \<open>None\<close> when one panics.
\<close>

fun outcomes ::
  "'v \<Rightarrow> ('a, 'v, 'w) Rule option list \<Rightarrow> 'w \<Rightarrow> ('a error option list \<times> 'w) option" where
  "outcomes value [] w = Some ([], w)"
| "outcomes value (rule # rules) w =
     (case Rule_Validate rule value w of
        (Panic, w') \<Rightarrow> None
      | (Ret out, w') \<Rightarrow>
          (case outcomes value rules w' of
             None \<Rightarrow> None
           | Some (outs, w'') \<Rightarrow> Some (out # outs, w'')))"

text \<open>
  Stub rules for the examples: \<open>count_rule out\<close> returns \<open>out\<close> and adds one to a counter,
  the whole state; \<open>check_rule p err\<close> fails with \<open>err\<close> on the values that do not satisfy
  \<open>p\<close>, and leaves the state alone.
\<close>

definition count_rule :: "'a error option \<Rightarrow> ('a, 'v, nat) Rule option" where
  "count_rule out = Some (\<lambda>value n. (Ret out, Suc n))"

definition check_rule :: "('v \<Rightarrow> bool) \<Rightarrow> 'a error \<Rightarrow> ('a, 'v, 'w) Rule option" where
  "check_rule p err = Some (\<lambda>value w. (Ret (if p value then None else Some err), w))"

text \<open>
  A program state for the examples: the globals and a count of the calls made to field
  bindings. \<open>count_field out\<close> is a field binding that returns \<open>out\<close> and counts the call.
\<close>

record 'a counted = "'a globals" +
  calls :: nat

definition count_field :: "'a error option \<Rightarrow> ('a, 'a counted) IFieldRule option" where
  "count_field out = Some (\<lambda>w. (Ret out, w\<lparr>calls := Suc (calls w)\<rparr>))"

text \<open>A nil \<open>*Person\<close> and a nil \<open>*int\<close>, and the pointers that are not nil.\<close>

definition Person :: gotype where
  "Person = Defined (Composite KStruct)"

definition nil_Person :: any where
  "nil_Person = Dyn (PtrTo Person) True"

definition a_Person :: any where
  "a_Person = Dyn (PtrTo Person) False"

definition nil_int :: any where
  "nil_int = Dyn (PtrTo (Predeclared KInt)) True"

definition an_int :: any where
  "an_int = Dyn (PtrTo (Predeclared KInt)) False"

section \<open>Properties of the compound rules\<close>

lemma Validate_AND_passes:
  "passes (\<lambda>_. v) rules w = Some w' \<Longrightarrow> Validate_AND e rules v w = (Ret None, w')"
  by (induction rules arbitrary: w) (auto split: prod.splits res.splits option.splits)

lemma Validate_AND_first_failure:
  "passes (\<lambda>_. v) pre w = Some w1 \<Longrightarrow> Rule_Validate c v w1 = (Ret (Some err), w2)
    \<Longrightarrow> Validate_AND e (pre @ c # post) v w = (Ret e, w2)"
  by (induction pre arbitrary: w) (auto split: prod.splits res.splits option.splits)

lemma Validate_OR_fails:
  "fails (\<lambda>_. v) rules w = Some w' \<Longrightarrow> Validate_OR e rules v w = (Ret e, w')"
  by (induction rules arbitrary: w) (auto split: prod.splits res.splits option.splits)

lemma Validate_OR_first_success:
  "fails (\<lambda>_. v) pre w = Some w1 \<Longrightarrow> Rule_Validate c v w1 = (Ret None, w2)
    \<Longrightarrow> Validate_OR e (pre @ c # post) v w = (Ret None, w2)"
  by (induction pre arbitrary: w) (auto split: prod.splits res.splits option.splits)

lemma And_Errf_fields:
  "cond_operator (ConditionRule_Errf (And children) format args) = ''AND''"
  "cond_rules (ConditionRule_Errf (And children) format args) = children"
  "cond_e (ConditionRule_Errf (And children) format args) =
     Some (if format = [] then ErrCondition else fmt_Errorf format args)"
  by (simp_all add: ConditionRule_Errf_def And_def)

lemma Or_Errf_fields:
  "cond_operator (ConditionRule_Errf (Or children) format args) = ''OR''"
  "cond_rules (ConditionRule_Errf (Or children) format args) = children"
  "cond_e (ConditionRule_Errf (Or children) format args) =
     Some (if format = [] then ErrCondition else fmt_Errorf format args)"
  by (simp_all add: ConditionRule_Errf_def Or_def)

text \<open>
  Claim C3. For every value and every list of children, \<open>And(children).Validate(value)\<close>
  invokes the children in order. With no child it passes. When every child returns nil it
  returns nil, in the state the last child left. When the children \<open>pre\<close> pass and the next
  child \<open>c\<close> returns an error, the result is the compound rule's own description
  (\<open>ErrCondition\<close>, or the error made by \<open>Errf\<close> when a non-empty format was given), never
  the child's error \<open>err\<close>, and the state is the one \<open>c\<close> left: the children \<open>post\<close> were
  not invoked. \<open>Errf\<close> with the empty format is the rule without an override.
\<close>

theorem And_Validate_first_failure:
  "ConditionRule_Errf (And children) [] args = And children
   \<and> ConditionRule_Validate (ConditionRule_Errf (And []) format args) v w = (Ret None, w)
   \<and> (\<forall>w'. passes (\<lambda>_. v) children w = Some w' \<longrightarrow>
         ConditionRule_Validate (ConditionRule_Errf (And children) format args) v w
           = (Ret None, w'))
   \<and> (\<forall>pre c post w1 err w2.
         children = pre @ c # post \<and> passes (\<lambda>_. v) pre w = Some w1
           \<and> Rule_Validate c v w1 = (Ret (Some err), w2) \<longrightarrow>
         ConditionRule_Validate (ConditionRule_Errf (And children) format args) v w
           = (Ret (Some (if format = [] then ErrCondition else fmt_Errorf format args)), w2))"
proof (intro conjI allI impI)
  show "ConditionRule_Errf (And children) [] args = And children"
    by (simp add: ConditionRule_Errf_def)
  show "ConditionRule_Validate (ConditionRule_Errf (And []) format args) v w = (Ret None, w)"
    by (simp add: ConditionRule_Validate_def And_Errf_fields)
next
  fix w' assume "passes (\<lambda>_. v) children w = Some w'"
  then show "ConditionRule_Validate (ConditionRule_Errf (And children) format args) v w
           = (Ret None, w')"
    by (simp add: ConditionRule_Validate_def And_Errf_fields Validate_AND_passes)
next
  fix pre c post w1 err w2
  assume h: "children = pre @ c # post \<and> passes (\<lambda>_. v) pre w = Some w1
           \<and> Rule_Validate c v w1 = (Ret (Some err), w2)"
  then have "Validate_AND e children v w = (Ret e, w2)" for e :: "'a error option"
    by (simp add: Validate_AND_first_failure)
  then show "ConditionRule_Validate (ConditionRule_Errf (And children) format args) v w
           = (Ret (Some (if format = [] then ErrCondition else fmt_Errorf format args)), w2)"
    by (simp add: ConditionRule_Validate_def And_Errf_fields)
qed


theorem And_Validate_first_failure_witness:
  "ConditionRule_Validate
     (And [count_rule None, count_rule (Some (errors_New ''child'')), count_rule None])
     ''abc'' 0 = (Ret (Some (ErrCondition :: unit error)), Suc (Suc 0))
   \<and> ConditionRule_Validate
     (ConditionRule_Errf
        (And [count_rule None, count_rule (Some (errors_New ''child'')), count_rule None])
        ''custom'' [])
     ''abc'' 0 = (Ret (Some (fmt_Errorf ''custom'' [] :: unit error)), Suc (Suc 0))"
proof -
  let ?cs = "[count_rule None, count_rule (Some (errors_New ''child'')), count_rule None]
               :: (unit, string, nat) Rule option list"
  have h: "?cs = [count_rule None] @ count_rule (Some (errors_New ''child'')) # [count_rule None]
      \<and> passes (\<lambda>_. ''abc'') [count_rule None :: (unit, string, nat) Rule option] 0 = Some (Suc 0)
      \<and> Rule_Validate (count_rule (Some (errors_New ''child'' :: unit error))) ''abc'' (Suc 0)
             = (Ret (Some (errors_New ''child'')), Suc (Suc 0))"
    by (simp add: count_rule_def Rule_Validate_def)
  have a: "ConditionRule_Validate (ConditionRule_Errf (And ?cs) [] []) ''abc'' 0
             = (Ret (Some ErrCondition), Suc (Suc 0))"
    using And_Validate_first_failure [where children = ?cs and format = "[]" and args = "[]"
          and v = "''abc''" and w = 0,
        THEN conjunct2, THEN conjunct2, THEN conjunct2, rule_format, OF h] by simp
  have b: "ConditionRule_Validate (ConditionRule_Errf (And ?cs) ''custom'' []) ''abc'' 0
             = (Ret (Some (fmt_Errorf ''custom'' [])), Suc (Suc 0))"
    using And_Validate_first_failure [where children = ?cs and format = "''custom''" and args = "[]"
          and v = "''abc''" and w = 0,
        THEN conjunct2, THEN conjunct2, THEN conjunct2, rule_format, OF h] by simp
  from a b show ?thesis by (simp add: ConditionRule_Errf_def)
qed

text \<open>
  Claim C4. For every value and every list of children, \<open>Or(children).Validate(value)\<close>
  invokes the children in order. With no child it fails with the rule's own description.
  When the children \<open>pre\<close> fail and the next child \<open>c\<close> returns nil, the result is nil and
  the state is the one \<open>c\<close> left: the children \<open>post\<close> were not invoked. When every child
  returns an error, the result is the compound rule's own description (\<open>ErrCondition\<close>, or
  the error made by \<open>Errf\<close> when a non-empty format was given), whatever the children's
  errors were.
\<close>

theorem Or_Validate_first_success:
  "ConditionRule_Errf (Or children) [] args = Or children
   \<and> ConditionRule_Validate (ConditionRule_Errf (Or []) format args) v w
         = (Ret (Some (if format = [] then ErrCondition else fmt_Errorf format args)), w)
   \<and> (\<forall>pre c post w1 w2.
         children = pre @ c # post \<and> fails (\<lambda>_. v) pre w = Some w1
           \<and> Rule_Validate c v w1 = (Ret None, w2) \<longrightarrow>
         ConditionRule_Validate (ConditionRule_Errf (Or children) format args) v w
           = (Ret None, w2))
   \<and> (\<forall>w'. fails (\<lambda>_. v) children w = Some w' \<longrightarrow>
         ConditionRule_Validate (ConditionRule_Errf (Or children) format args) v w
           = (Ret (Some (if format = [] then ErrCondition else fmt_Errorf format args)), w'))"
proof (intro conjI allI impI)
  show "ConditionRule_Errf (Or children) [] args = Or children"
    by (simp add: ConditionRule_Errf_def)
  show "ConditionRule_Validate (ConditionRule_Errf (Or []) format args) v w
         = (Ret (Some (if format = [] then ErrCondition else fmt_Errorf format args)), w)"
    by (simp add: ConditionRule_Validate_def Or_Errf_fields)
next
  fix pre c post w1 w2
  assume "children = pre @ c # post \<and> fails (\<lambda>_. v) pre w = Some w1
           \<and> Rule_Validate c v w1 = (Ret None, w2)"
  then have "Validate_OR e children v w = (Ret None, w2)" for e :: "'a error option"
    by (simp add: Validate_OR_first_success)
  then show "ConditionRule_Validate (ConditionRule_Errf (Or children) format args) v w
           = (Ret None, w2)"
    by (simp add: ConditionRule_Validate_def Or_Errf_fields)
next
  fix w' assume "fails (\<lambda>_. v) children w = Some w'"
  then show "ConditionRule_Validate (ConditionRule_Errf (Or children) format args) v w
           = (Ret (Some (if format = [] then ErrCondition else fmt_Errorf format args)), w')"
    by (simp add: ConditionRule_Validate_def Or_Errf_fields Validate_OR_fails)
qed

theorem Or_Validate_first_success_witness:
  "ConditionRule_Validate
     (Or [count_rule (Some (errors_New ''first'')), count_rule None,
          count_rule (Some (errors_New ''third''))])
     ''abc'' 0 = (Ret (None :: unit error option), Suc (Suc 0))
   \<and> ConditionRule_Validate
     (Or [count_rule (Some (errors_New ''first'')), count_rule (Some (errors_New ''second''))])
     ''abc'' 0 = (Ret (Some (ErrCondition :: unit error)), Suc (Suc 0))"
proof -
  let ?f1 = "count_rule (Some (errors_New ''first'')) :: (unit, string, nat) Rule option"
  let ?f2 = "count_rule (Some (errors_New ''second'')) :: (unit, string, nat) Rule option"
  let ?f3 = "count_rule (Some (errors_New ''third'')) :: (unit, string, nat) Rule option"
  let ?p = "count_rule None :: (unit, string, nat) Rule option"
  have h: "[?f1, ?p, ?f3] = [?f1] @ ?p # [?f3]
      \<and> fails (\<lambda>_. ''abc'') [?f1] 0 = Some (Suc 0)
      \<and> Rule_Validate ?p ''abc'' (Suc 0) = (Ret None, Suc (Suc 0))"
    by (simp add: count_rule_def Rule_Validate_def)
  have g: "fails (\<lambda>_. ''abc'') [?f1, ?f2] 0 = Some (Suc (Suc 0))"
    by (simp add: count_rule_def Rule_Validate_def)
  have a: "ConditionRule_Validate (ConditionRule_Errf (Or [?f1, ?p, ?f3]) [] []) ''abc'' 0
             = (Ret None, Suc (Suc 0))"
    using Or_Validate_first_success [where children = "[?f1, ?p, ?f3]" and format = "[]"
          and args = "[]" and v = "''abc''" and w = 0,
        THEN conjunct2, THEN conjunct2, THEN conjunct1, rule_format, OF h] by simp
  have b: "ConditionRule_Validate (ConditionRule_Errf (Or [?f1, ?f2]) [] []) ''abc'' 0
             = (Ret (Some ErrCondition), Suc (Suc 0))"
    using Or_Validate_first_success [where children = "[?f1, ?f2]" and format = "[]"
          and args = "[]" and v = "''abc''" and w = 0,
        THEN conjunct2, THEN conjunct2, THEN conjunct2, rule_format, OF g] by simp
  from a b show ?thesis by (simp add: ConditionRule_Errf_def)
qed

text \<open>
  Claim C6. \<open>Dependency(field, dependency, childRule, extractor).Validate(R)\<close> calls the
  extractor on \<open>R\<close> and returns what the child rule returns on the extracted value: the
  same result, the child's own error included, and the same final state. With no child
  rule (a nil \<open>validator\<close>) it returns nil and leaves the state as it was, whatever the
  extractor is: the extractor is not called.
\<close>

theorem Dependency_Validate_delegates:
  "(\<forall>d w1. extractor R w = (Ret d, w1) \<longrightarrow>
      DependencyRule_Validate (Dependency field dependency (Some childRule) (Some extractor)) R w
        = childRule d w1)
   \<and> DependencyRule_Validate (Dependency field dependency None getter) R w = (Ret None, w)"
  by (simp add: DependencyRule_Validate_def Dependency_def Rule_Validate_def)

theorem Dependency_Validate_delegates_witness:
  "DependencyRule_Validate
     (Dependency ''Name'' '''' (check_rule (\<lambda>d. 3 < d) (errors_New ''too short''))
        (Some (\<lambda>R n. (Ret (length R), Suc n))))
     ''abc'' 0 = (Ret (Some (errors_New ''too short'' :: unit error)), Suc 0)
   \<and> DependencyRule_Validate
     (Dependency ''Name'' '''' None (Some (\<lambda>R n. (Panic :: nat res, Suc n))))
     ''abc'' 0 = (Ret (None :: unit error option), 0)"
proof -
  let ?g = "\<lambda>(R :: string) (n :: nat). (Ret (length R), Suc n)"
  let ?c = "\<lambda>(d :: nat) (n :: nat). (Ret (if 3 < d then None else Some (errors_New ''too short'' :: unit error)), n)"
  have c: "check_rule (\<lambda>d. 3 < d) (errors_New ''too short'') = Some ?c"
    by (simp add: check_rule_def)
  have g: "?g ''abc'' 0 = (Ret 3, Suc 0)"
    by simp
  have a: "DependencyRule_Validate (Dependency ''Name'' '''' (Some ?c) (Some ?g)) ''abc'' 0
             = ?c 3 (Suc 0)"
    using Dependency_Validate_delegates [where extractor = ?g and R = "''abc''" and w = 0
          and childRule = ?c and field = "''Name''" and dependency = "''''",
        THEN conjunct1, rule_format, OF g] .
  have b: "DependencyRule_Validate
     (Dependency ''Name'' '''' None (Some (\<lambda>R n. (Panic :: nat res, Suc n))))
     ''abc'' 0 = (Ret (None :: unit error option), 0)"
    using Dependency_Validate_delegates [where R = "''abc''" and w = "0::nat"
          and field = "''Name''" and dependency = "''''"
          and getter = "Some (\<lambda>R n. (Panic :: nat res, Suc n))" and extractor = ?g
          and childRule = ?c,
        THEN conjunct2] .
  from a b c show ?thesis by simp
qed

lemma outcomes_length:
  "outcomes v rules w = Some (outs, w') \<Longrightarrow> length outs = length rules"
  by (induction rules arbitrary: w outs)
     (auto split: prod.splits res.splits option.splits)

lemma ValidateWithErrs_loop_outcomes:
  "outcomes v rules w = Some (outs, w') \<Longrightarrow>
     ValidateWithErrs_loop errs v rules w
       = (Ret (errs @ map the (filter (\<lambda>out. out \<noteq> None) outs)), w')"
  by (induction rules arbitrary: w outs errs)
     (auto split: prod.splits res.splits option.splits)

lemma ValidateWithErrs_loop_returns:
  "ValidateWithErrs_loop errs v rules w = (Ret es, w') \<Longrightarrow>
     \<exists>outs. outcomes v rules w = Some (outs, w')"
proof (induction rules arbitrary: w errs)
  case Nil
  then show ?case by simp
next
  case (Cons r rs)
  show ?case
  proof (cases "Rule_Validate r v w")
    case (Pair res w1)
    show ?thesis
    proof (cases res)
      case Panic
      with Pair Cons.prems show ?thesis by simp
    next
      case (Ret out)
      with Pair Cons.prems obtain errs' where
        "ValidateWithErrs_loop errs' v rs w1 = (Ret es, w')"
        by (cases out) auto
      from Cons.IH [OF this] obtain outs where "outcomes v rs w1 = Some (outs, w')"
        by blast
      with Pair Ret show ?thesis by simp
    qed
  qed
qed

lemma failures_empty:
  "map the (filter (\<lambda>out. out \<noteq> None) outs) = [] \<longleftrightarrow> (\<forall>out \<in> set outs. out = None)"
  by (induction outs) auto

text \<open>
  Claim C5. For every value and every list of rules, \<open>ValidateWithErrs\<close> invokes every
  rule, in order, whatever the earlier ones returned: when \<open>outs\<close> is what the rules
  return one after the other (one entry for each rule), the result is the list of the
  errors in \<open>outs\<close>, in that order, and the final state is the state after the last rule.
  The list is empty exactly when every rule returned nil. Conversely, whenever
  \<open>ValidateWithErrs\<close> returns, every rule has returned.
\<close>

theorem ValidateWithErrs_collects_all:
  "(\<forall>outs w'. outcomes v rules w = Some (outs, w') \<longrightarrow>
      length outs = length rules
      \<and> ValidateWithErrs v rules w
          = (Ret (map the (filter (\<lambda>out. out \<noteq> None) outs)), w')
      \<and> (map the (filter (\<lambda>out. out \<noteq> None) outs) = [] \<longleftrightarrow> (\<forall>out \<in> set outs. out = None)))
   \<and> (\<forall>errs w'. ValidateWithErrs v rules w = (Ret errs, w') \<longrightarrow>
        (\<exists>outs. outcomes v rules w = Some (outs, w')))"
proof (intro conjI allI impI)
  fix outs w' assume h: "outcomes v rules w = Some (outs, w')"
  show "length outs = length rules"
    using h by (rule outcomes_length)
  show "ValidateWithErrs v rules w = (Ret (map the (filter (\<lambda>out. out \<noteq> None) outs)), w')"
    using ValidateWithErrs_loop_outcomes [OF h, of "[]"] by (simp add: ValidateWithErrs_def)
  show "map the (filter (\<lambda>out. out \<noteq> None) outs) = [] \<longleftrightarrow> (\<forall>out \<in> set outs. out = None)"
    by (rule failures_empty)
next
  fix errs w' assume "ValidateWithErrs v rules w = (Ret errs, w')"
  then show "\<exists>outs. outcomes v rules w = Some (outs, w')"
    unfolding ValidateWithErrs_def by (rule ValidateWithErrs_loop_returns)
qed

theorem ValidateWithErrs_collects_all_witness:
  "ValidateWithErrs ''abc''
     [count_rule (Some (errors_New ''one'')), count_rule (Some (errors_New ''two'')),
      count_rule None, count_rule (Some (errors_New ''four''))] 0
     = (Ret [errors_New ''one'', errors_New ''two'', errors_New ''four'' :: unit error],
        Suc (Suc (Suc (Suc 0))))"
proof -
  let ?rules = "[count_rule (Some (errors_New ''one'')), count_rule (Some (errors_New ''two'')),
      count_rule None, count_rule (Some (errors_New ''four''))] :: (unit, string, nat) Rule option list"
  have h: "outcomes ''abc'' ?rules 0
     = Some ([Some (errors_New ''one''), Some (errors_New ''two''), None, Some (errors_New ''four'')],
             Suc (Suc (Suc (Suc 0))))"
    by (simp add: count_rule_def Rule_Validate_def)
  show ?thesis
    using ValidateWithErrs_collects_all [where v = "''abc''" and rules = ?rules and w = 0,
        THEN conjunct1, rule_format, OF h, THEN conjunct2, THEN conjunct1] by simp
qed

lemma validate_loop_passes:
  "passes slot rules w = Some w' \<Longrightarrow> validate_loop (Some slot) rules w = (Ret None, w')"
  by (induction rules arbitrary: w) (auto split: prod.splits res.splits option.splits)

lemma validate_loop_first_failure:
  "passes slot pre w = Some w1 \<Longrightarrow> Rule_Validate r (slot w1) w1 = (Ret (Some err), w2)
    \<Longrightarrow> validate_loop (Some slot) (pre @ r # post) w = (Ret (Some err), w2)"
  by (induction pre arbitrary: w) (auto split: prod.splits res.splits option.splits)

text \<open>
  Claim C7. A binding made by \<open>Field(slotRef, rules...)\<close> keeps the reference and the
  rules, no value: \<open>validate()\<close> reads the slot in the state it is called in, so whatever
  was written to the slot before the call is what the rules see. The rules are applied in
  order. When all of them return nil the result is nil. When the rules \<open>pre\<close> pass and the
  next rule \<open>r\<close> returns an error, that error is returned unchanged and the state is the
  one \<open>r\<close> left: the rules \<open>post\<close> were not invoked.
\<close>

theorem Field_validate_first_failure:
  "fr_field (Field (Some slot) rules) = Some slot
   \<and> (\<forall>w'. passes slot rules w = Some w' \<longrightarrow>
         FieldRule_validate (Field (Some slot) rules) w = (Ret None, w'))
   \<and> (\<forall>pre r post w1 err w2.
         rules = pre @ r # post \<and> passes slot pre w = Some w1
           \<and> Rule_Validate r (slot w1) w1 = (Ret (Some err), w2) \<longrightarrow>
         FieldRule_validate (Field (Some slot) rules) w = (Ret (Some err), w2))"
  by (simp add: FieldRule_validate_def Field_def validate_loop_passes validate_loop_first_failure)

theorem Field_validate_first_failure_witness:
  "FieldRule_validate
     (Field (Some snd)
        [check_rule (\<lambda>x. 0 \<le> x) (errors_New ''value is less than minimum''),
         check_rule (\<lambda>x. x \<le> 120) (errors_New ''value is greater than maximum'')])
     (''John'', 150 :: int)
     = (Ret (Some (errors_New ''value is greater than maximum'' :: unit error)), (''John'', 150))
   \<and> FieldRule_validate
     (Field (Some snd)
        [check_rule (\<lambda>x. 0 \<le> x) (errors_New ''value is less than minimum''),
         check_rule (\<lambda>x. x \<le> 120) (errors_New ''value is greater than maximum'')])
     (''John'', 30 :: int)
     = (Ret (None :: unit error option), (''John'', 30))"
proof -
  let ?min = "check_rule (\<lambda>x :: int. 0 \<le> x) (errors_New ''value is less than minimum'')
                :: (unit, int, string \<times> int) Rule option"
  let ?max = "check_rule (\<lambda>x :: int. x \<le> 120) (errors_New ''value is greater than maximum'')
                :: (unit, int, string \<times> int) Rule option"
  have h: "[?min, ?max] = [?min] @ ?max # []
      \<and> passes snd [?min] (''John'', 150) = Some (''John'', 150)
      \<and> Rule_Validate ?max (snd (''John'', 150 :: int)) (''John'', 150)
           = (Ret (Some (errors_New ''value is greater than maximum'')), (''John'', 150))"
    by (simp add: check_rule_def Rule_Validate_def)
  have g: "passes snd [?min, ?max] (''John'', 30) = Some (''John'', 30)"
    by (simp add: check_rule_def Rule_Validate_def)
  have a: "FieldRule_validate (Field (Some snd) [?min, ?max]) (''John'', 150)
     = (Ret (Some (errors_New ''value is greater than maximum'')), (''John'', 150))"
    using Field_validate_first_failure [where slot = snd and rules = "[?min, ?max]"
          and w = "(''John'', 150)",
        THEN conjunct2, THEN conjunct2, rule_format, OF h] .
  have b: "FieldRule_validate (Field (Some snd) [?min, ?max]) (''John'', 30)
     = (Ret None, (''John'', 30))"
    using Field_validate_first_failure [where slot = snd and rules = "[?min, ?max]"
          and w = "(''John'', 30)",
        THEN conjunct2, THEN conjunct1, rule_format, OF g] .
  from a b show ?thesis by simp
qed

lemma valid_scan_iff: "valid_scan eq vals x \<longleftrightarrow> (\<exists>a \<in> set vals. eq a x)"
  by (induction vals) auto

text \<open>
  Claim C9. For every value \<open>x\<close>, \<open>MutualExclude(fields, values, eq).Validate(x)\<close> returns nil
  if and only if \<open>eq(a, x)\<close> holds for some element \<open>a\<close> of \<open>values\<close>; otherwise it returns
  the rule's own description: \<open>ErrMutualExclude\<close>, or the error made by \<open>Errf\<close> when a
  non-empty format was given. (\<open>eq\<close> is a comparison function; with a nil function value
  in its place the rule returns nil on every value.)
\<close>

theorem MutualExclude_Validate_membership:
  "(MutualExcludeRule_Validate (MutualExclude fs vals (Some eq)) x = None
      \<longleftrightarrow> (\<exists>a \<in> set vals. eq a x))
   \<and> MutualExcludeRule_Validate (MutualExcludeRule_Errf (MutualExclude fs vals (Some eq)) format args) x
       = (if \<exists>a \<in> set vals. eq a x then None
          else Some (if format = [] then ErrMutualExclude else fmt_Errorf format args))
   \<and> MutualExcludeRule_Errf (MutualExclude fs vals (Some eq)) [] args
       = MutualExclude fs vals (Some eq)"
  by (simp add: MutualExcludeRule_Validate_def MutualExcludeRule_Errf_def MutualExclude_def
        valid_scan_iff)

theorem MutualExclude_Validate_membership_witness:
  "MutualExcludeRule_Validate (MutualExclude [''type1'', ''type2''] [''A'', ''B''] (Some (=))) ''A''
     = (None :: unit error option)
   \<and> MutualExcludeRule_Validate (MutualExclude [''type1'', ''type2''] [''A'', ''B''] (Some (=))) ''C''
     = Some (ErrMutualExclude :: unit error)"
proof -
  let ?r = "MutualExclude [''type1'', ''type2''] [''A'', ''B''] (Some (=)) :: (unit, string) MutualExcludeRule"
  have A: "\<exists>a \<in> set [''A'', ''B'']. a = ''A''" by simp
  have C: "\<not> (\<exists>a \<in> set [''A'', ''B'']. a = ''C'')" by simp
  have a: "MutualExcludeRule_Validate ?r ''A'' = None"
    using MutualExclude_Validate_membership [where fs = "[''type1'', ''type2'']"
          and vals = "[''A'', ''B'']" and eq = "(=)" and x = "''A''" and format = "[]" and args = "[]",
        THEN conjunct1, THEN iffD2, OF A] .
  have b: "MutualExcludeRule_Validate (MutualExcludeRule_Errf ?r [] []) ''C'' = Some ErrMutualExclude"
    using MutualExclude_Validate_membership [where fs = "[''type1'', ''type2'']"
          and vals = "[''A'', ''B'']" and eq = "(=)" and x = "''C''" and format = "[]" and args = "[]",
        THEN conjunct2, THEN conjunct1] C by simp
  from a b show ?thesis by (simp add: MutualExcludeRule_Errf_def)
qed

section \<open>Properties of ValidateStruct\<close>

lemma value_cases_Kind: "t \<in> set value_cases \<Longrightarrow> Kind t \<noteq> KPtr"
  by (auto simp: value_cases_def)

lemma isNil_switch_pointer: "Kind t = KPtr \<Longrightarrow> isNil_switch (Dyn t n) = Inr n"
  using value_cases_Kind [of t] by (auto simp: isNil_switch_def)

lemma NotNil_rule_pointer:
  "Kind t = KPtr \<Longrightarrow> nil_not (NotNil w) \<Longrightarrow>
     NotNil_rule (Dyn t n) w = (Ret (if n then nil_e (NotNil w) else None), w)"
  by (simp add: NotNil_rule_def NilRule_Validate_def isNil_switch_pointer)

lemma ValidateStruct_nil_pointer:
  assumes "Kind t = KPtr" and "nil_not (NotNil w)"
    and "nilErr \<noteq> [] \<or> nil_e (NotNil w) \<noteq> None"
  shows "ValidateStruct (Dyn t True) nilErr fs w
     = (Ret (nil_e (NilRule_Errf (NotNil w) nilErr [])),
        w\<lparr>NotNil := NilRule_Errf (NotNil w) nilErr []\<rparr>)"
proof -
  let ?w1 = "w\<lparr>NotNil := NilRule_Errf (NotNil w) nilErr []\<rparr>"
  have n: "nil_not (NotNil ?w1)"
    using assms(2) by (simp add: NilRule_Errf_def)
  have "nil_e (NotNil ?w1) \<noteq> None"
    using assms(3) by (cases "nilErr = []") (simp_all add: NilRule_Errf_def)
  then obtain err where e: "nil_e (NotNil ?w1) = Some err"
    by blast
  have "Validate (Dyn t True) [Some NotNil_rule] ?w1 = (Ret (Some err), ?w1)"
    using NotNil_rule_pointer [OF assms(1) n, of True] e
    by (simp add: Rule_Validate_def)
  then show ?thesis
    using assms(1) e by (simp add: ValidateStruct_def)
qed

lemma ValidateStruct_pointer_to_struct:
  assumes "Kind t = KPtr" and "nil_not (NotNil w)" and "Elem_Kind t = KStruct"
  shows "ValidateStruct (Dyn t False) nilErr fs w
     = validate_fields fs (w\<lparr>NotNil := NilRule_Errf (NotNil w) nilErr []\<rparr>)"
proof -
  let ?w1 = "w\<lparr>NotNil := NilRule_Errf (NotNil w) nilErr []\<rparr>"
  have n: "nil_not (NotNil ?w1)"
    using assms(2) by (simp add: NilRule_Errf_def)
  have "Validate (Dyn t False) [Some NotNil_rule] ?w1 = (Ret None, ?w1)"
    using NotNil_rule_pointer [OF assms(1) n, of False]
    by (simp add: Rule_Validate_def)
  then show ?thesis
    using assms(1,3) by (simp add: ValidateStruct_def)
qed




text \<open>
  Claim C10. A nil pointer of any pointer type, whatever it points to (a nil \<open>*int\<close> as
  well as a nil \<open>*Person\<close>), passes the shape check: the result is the failure of the
  \<open>NotNil\<close> rule after \<open>Errf(nilErr)\<close>, which for a non-empty \<open>nilErr\<close> is not the shape
  error. A pointer that is not nil and
  does not point to a struct gets the shape error, and nothing is written. A pointer that
  is not nil and points to a struct goes on to the field bindings.
\<close>

theorem ValidateStruct_shape_check:
  "(Kind t = KPtr \<and> nil_not (NotNil w) \<and> (nilErr \<noteq> [] \<or> nil_e (NotNil w) \<noteq> None) \<longrightarrow>
      fst (ValidateStruct (Dyn t True) nilErr fs w)
        = Ret (nil_e (NilRule_Errf (NotNil w) nilErr []))
      \<and> (nilErr \<noteq> [] \<longrightarrow>
           fst (ValidateStruct (Dyn t True) nilErr fs w) \<noteq> Ret (Some shape_error)))
   \<and> (Kind t = KPtr \<and> Elem_Kind t \<noteq> KStruct \<longrightarrow>
        ValidateStruct (Dyn t False) nilErr fs w = (Ret (Some shape_error), w))
   \<and> (Kind t = KPtr \<and> Elem_Kind t = KStruct \<and> nil_not (NotNil w) \<longrightarrow>
        ValidateStruct (Dyn t False) nilErr fs w
          = validate_fields fs (w\<lparr>NotNil := NilRule_Errf (NotNil w) nilErr []\<rparr>))"
proof -
  have nil_case: "fst (ValidateStruct (Dyn t True) nilErr fs w)
        = Ret (nil_e (NilRule_Errf (NotNil w) nilErr []))
      \<and> (nilErr \<noteq> [] \<longrightarrow>
           fst (ValidateStruct (Dyn t True) nilErr fs w) \<noteq> Ret (Some shape_error))"
    if "Kind t = KPtr \<and> nil_not (NotNil w) \<and> (nilErr \<noteq> [] \<or> nil_e (NotNil w) \<noteq> None)"
    using that by (simp add: ValidateStruct_nil_pointer NilRule_Errf_def shape_error_def)
  have not_struct: "ValidateStruct (Dyn t False) nilErr fs w = (Ret (Some shape_error), w)"
    if "Kind t = KPtr \<and> Elem_Kind t \<noteq> KStruct"
    using that by (simp add: ValidateStruct_def)
  have struct: "ValidateStruct (Dyn t False) nilErr fs w
          = validate_fields fs (w\<lparr>NotNil := NilRule_Errf (NotNil w) nilErr []\<rparr>)"
    if "Kind t = KPtr \<and> Elem_Kind t = KStruct \<and> nil_not (NotNil w)"
    using that by (simp add: ValidateStruct_pointer_to_struct)
  show ?thesis
    using nil_case not_struct struct by blast
qed

theorem ValidateStruct_shape_check_witness:
  "fst (ValidateStruct nil_int ''nil'' [count_field None] \<lparr>NotNil = NotNil_initial, calls = 0\<rparr>)
     = Ret (Some (fmt_Errorf ''nil'' [] :: unit error))
   \<and> ValidateStruct an_int ''nil'' [count_field None] \<lparr>NotNil = NotNil_initial, calls = 0\<rparr>
     = (Ret (Some (shape_error :: unit error)), \<lparr>NotNil = NotNil_initial, calls = 0\<rparr>)
   \<and> fst (ValidateStruct a_Person ''nil'' [count_field None] \<lparr>NotNil = NotNil_initial, calls = 0\<rparr>)
     = Ret (None :: unit error option)"
proof -
  let ?w = "\<lparr>NotNil = NotNil_initial, calls = 0\<rparr> :: unit counted"
  let ?fs = "[count_field None] :: (unit, unit counted) IFieldRule option list"
  note T = ValidateStruct_shape_check [where w = ?w and nilErr = "''nil''" and fs = ?fs]
  have h1: "Kind (PtrTo (Predeclared KInt)) = KPtr \<and> nil_not (NotNil ?w)
      \<and> (''nil'' \<noteq> [] \<or> nil_e (NotNil ?w) \<noteq> None)"
    by (simp add: NotNil_initial_def)
  have h2: "Kind (PtrTo (Predeclared KInt)) = KPtr \<and> Elem_Kind (PtrTo (Predeclared KInt)) \<noteq> KStruct"
    by simp
  have h3: "Kind (PtrTo Person) = KPtr \<and> Elem_Kind (PtrTo Person) = KStruct \<and> nil_not (NotNil ?w)"
    by (simp add: NotNil_initial_def Person_def)
  have a: "fst (ValidateStruct nil_int ''nil'' ?fs ?w) = Ret (Some (fmt_Errorf ''nil'' []))"
    using T [where t = "PtrTo (Predeclared KInt)", THEN conjunct1, rule_format, OF h1,
        THEN conjunct1]
    by (simp add: nil_int_def NilRule_Errf_def)
  have b: "ValidateStruct an_int ''nil'' ?fs ?w = (Ret (Some shape_error), ?w)"
    using T [where t = "PtrTo (Predeclared KInt)", THEN conjunct2, THEN conjunct1, rule_format, OF h2]
    by (simp add: an_int_def)
  have c: "fst (ValidateStruct a_Person ''nil'' ?fs ?w) = Ret None"
    using T [where t = "PtrTo Person", THEN conjunct2, THEN conjunct2, rule_format, OF h3]
    by (simp add: a_Person_def count_field_def IFieldRule_validate_def)
  from a b c show ?thesis by simp
qed

section \<open>State shared between calls\<close>

text \<open>
  Claim C2 says that \<open>ValidateStruct\<close> and \<open>Validate\<close> return the same result for the same
  arguments whatever was called before, and write no state that other validations read.
  The code does not: \<open>ValidateStruct\<close> writes \<open>nilErr\<close> into the one \<open>NotNil\<close> object of
  the process. At process start, \<open>ValidateStruct(nilPerson, "")\<close> and
  \<open>Validate(nil, rule.NotNil)\<close> fail with \<open>ErrNotNil\<close>; after a call
  \<open>ValidateStruct(nilPerson, "A")\<close> the same two calls fail with \<open>fmt.Errorf("A")\<close>. The
  write happens on a pointer that is not nil as well, where validation succeeds.
\<close>

theorem ValidateStruct_writes_NotNil:
  "fst (ValidateStruct nil_Person [] [] (\<lparr>NotNil = NotNil_initial\<rparr> :: unit globals))
     = Ret (Some ErrNotNil)
   \<and> fst (ValidateStruct nil_Person []  []
         (snd (ValidateStruct nil_Person ''A'' [] (\<lparr>NotNil = NotNil_initial\<rparr> :: unit globals))))
     = Ret (Some (fmt_Errorf ''A'' []))
   \<and> fst (Validate NilAny [Some NotNil_rule] (\<lparr>NotNil = NotNil_initial\<rparr> :: unit globals))
     = Ret (Some ErrNotNil)
   \<and> fst (Validate NilAny [Some NotNil_rule]
         (snd (ValidateStruct nil_Person ''A'' [] (\<lparr>NotNil = NotNil_initial\<rparr> :: unit globals))))
     = Ret (Some (fmt_Errorf ''A'' []))
   \<and> ValidateStruct a_Person ''A'' [] (\<lparr>NotNil = NotNil_initial\<rparr> :: unit globals)
     = (Ret None, \<lparr>NotNil = \<lparr>nil_not = True, nil_e = Some (fmt_Errorf ''A'' [])\<rparr>\<rparr>)"
  by (simp add: ValidateStruct_def nil_Person_def a_Person_def Person_def Rule_Validate_def
        NotNil_rule_def NilRule_Validate_def isNil_switch_def value_cases_def pointer_cases_def
        NilRule_Errf_def NotNil_initial_def)

section \<open>Overriding the failure description\<close>

lemma Validate_AND_failure:
  "Validate_AND e rules v w = (Ret (Some err), w') \<Longrightarrow> e = Some err"
  by (induction rules arbitrary: w) (auto split: prod.splits res.splits if_splits)

lemma Validate_OR_failure:
  "Validate_OR e rules v w = (Ret (Some err), w') \<Longrightarrow> e = Some err"
  by (induction rules arbitrary: w) (auto split: prod.splits res.splits if_splits)

lemma ConditionRule_Validate_failure:
  "ConditionRule_Validate r v w = (Ret (Some err), w') \<Longrightarrow> cond_e r = Some err"
  by (auto simp: ConditionRule_Validate_def split: if_splits
        dest: Validate_AND_failure Validate_OR_failure)

text \<open>
  \<open>ConditionRule.Errf\<close>: the empty format leaves the rule as it is; a non-empty format
  replaces the description, so that of two calls the later one counts; and from then on
  every error the rule returns is \<open>fmt.Errorf(format, args...)\<close>, made once by \<open>Errf\<close>.
\<close>

theorem ConditionRule_Errf_override:
  "ConditionRule_Errf r [] args = r
   \<and> (format \<noteq> [] \<longrightarrow>
        cond_e (ConditionRule_Errf (ConditionRule_Errf r format' args') format args)
          = Some (fmt_Errorf format args))
   \<and> (\<forall>err w'. format \<noteq> []
          \<and> ConditionRule_Validate (ConditionRule_Errf r format args) v w = (Ret (Some err), w')
        \<longrightarrow> err = fmt_Errorf format args)"
proof (intro conjI allI impI)
  show "ConditionRule_Errf r [] args = r"
    by (simp add: ConditionRule_Errf_def)
  show "cond_e (ConditionRule_Errf (ConditionRule_Errf r format' args') format args)
          = Some (fmt_Errorf format args)" if "format \<noteq> []"
    using that by (simp add: ConditionRule_Errf_def)
next
  fix err w'
  assume h: "format \<noteq> []
          \<and> ConditionRule_Validate (ConditionRule_Errf r format args) v w = (Ret (Some err), w')"
  then have "cond_e (ConditionRule_Errf r format args) = Some err"
    by (intro ConditionRule_Validate_failure [of _ v w err w']) simp
  with h show "err = fmt_Errorf format args"
    by (simp add: ConditionRule_Errf_def)
qed

theorem ConditionRule_Errf_override_witness:
  "cond_e (ConditionRule_Errf (ConditionRule_Errf (Or ([] :: (unit, string, nat) Rule option list))
       ''a'' []) ''b'' [])
     = Some (fmt_Errorf ''b'' [])"
  using ConditionRule_Errf_override [where format = "''b''" and args = "[]" and format' = "''a''"
      and args' = "[]" and r = "Or ([] :: (unit, string, nat) Rule option list)",
      THEN conjunct2, THEN conjunct1, rule_format]
  by simp

text \<open>
  Claim C8 says that after \<open>Errf\<close> with a non-empty format every failure of the rule
  returns the custom description. \<open>DependencyRule.Errf\<close> stores the description, and
  \<open>DependencyRule.Validate\<close> never returns it: on the input of the repository's own test
  (a child rule that fails with "validation error", the description overridden with
  "Custom dependency error") the result is the child's error.
\<close>

theorem DependencyRule_Errf_not_returned:
  "dep_e (DependencyRule_Errf
       (Dependency ''Name'' '''' (check_rule (\<lambda>s. False) (errors_New ''validation error''))
          (Some (\<lambda>u w. (Ret u, w))))
       ''Custom dependency error'' [] :: (unit, string, string, unit) DependencyRule)
     = Some (fmt_Errorf ''Custom dependency error'' [])
   \<and> DependencyRule_Validate
     (DependencyRule_Errf
       (Dependency ''Name'' '''' (check_rule (\<lambda>s. False) (errors_New ''validation error''))
          (Some (\<lambda>u w. (Ret u, w))))
       ''Custom dependency error'' [])
     ''test'' ()
     = (Ret (Some (errors_New ''validation error'' :: unit error)), ())"
  by (simp add: DependencyRule_Validate_def DependencyRule_Errf_def Dependency_def
        check_rule_def Rule_Validate_def)

end
